theory Spec2Isabelle
  imports Main "HOL-Library.Log_Nat"
begin

section \<open>Leaderboard refresh: fetch, extract, merge\<close>

text \<open>
  A shallow embedding of \<^verbatim>\<open>update_leaderboard_data.py\<close>. A Python \<^verbatim>\<open>str\<close> is a
  \<^typ>\<open>string\<close> whose characters are read as the code points 0 to 255; the character
  classes of the regular expressions are written out for that range.
\<close>

subsection \<open>Characters and strings\<close>

text \<open>
  The classes of Python's \<^verbatim>\<open>re\<close> on \<^verbatim>\<open>str\<close> patterns, for code points below 256:
  \<^verbatim>\<open>\d\<close> is the ten ASCII digits; \<^verbatim>\<open>\s\<close> and \<^verbatim>\<open>str.strip()\<close> use
  \<^verbatim>\<open>str.isspace\<close>; \<^verbatim>\<open>\w\<close> is \<^verbatim>\<open>str.isalnum\<close> or the underscore;
  \<^verbatim>\<open>re.I\<close> compares the lower-cased characters.
\<close>

definition is_digit :: "char \<Rightarrow> bool" where
  "is_digit c = (let n = (of_char c :: nat) in 48 \<le> n \<and> n \<le> 57)"

definition is_space :: "char \<Rightarrow> bool" where
  "is_space c = (let n = (of_char c :: nat) in
     (9 \<le> n \<and> n \<le> 13) \<or> (28 \<le> n \<and> n \<le> 32) \<or> n = 133 \<or> n = 160)"

definition is_word :: "char \<Rightarrow> bool" where
  "is_word c = (let n = (of_char c :: nat) in
     (48 \<le> n \<and> n \<le> 57) \<or> (65 \<le> n \<and> n \<le> 90) \<or> n = 95 \<or> (97 \<le> n \<and> n \<le> 122)
     \<or> n = 170 \<or> n = 178 \<or> n = 179 \<or> n = 181 \<or> n = 185 \<or> n = 186
     \<or> (188 \<le> n \<and> n \<le> 190) \<or> (192 \<le> n \<and> n \<le> 214) \<or> (216 \<le> n \<and> n \<le> 246)
     \<or> 248 \<le> n)"

definition py_lower :: "char \<Rightarrow> char" where
  "py_lower c = (let n = (of_char c :: nat) in
     if (65 \<le> n \<and> n \<le> 90) \<or> (192 \<le> n \<and> n \<le> 214) \<or> (216 \<le> n \<and> n \<le> 222)
     then char_of (n + 32) else c)"

text \<open>\<^verbatim>\<open>s.strip()\<close>: leading and trailing white space removed.\<close>

definition strip :: "string \<Rightarrow> string" where
  "strip s = rev (dropWhile is_space (rev (dropWhile is_space s)))"

text \<open>\<^verbatim>\<open>sub in s\<close> on strings.\<close>

fun starts_with :: "string \<Rightarrow> string \<Rightarrow> bool" where
  "starts_with [] s = True"
| "starts_with (p # ps) [] = False"
| "starts_with (p # ps) (c # cs) = (p = c \<and> starts_with ps cs)"

fun contains :: "string \<Rightarrow> string \<Rightarrow> bool" where
  "contains sub [] = (sub = [])"
| "contains sub (c # cs) = (starts_with sub (c # cs) \<or> contains sub cs)"

text \<open>
  \<^verbatim>\<open>html.unescape\<close> returns its argument when it holds no ampersand, and otherwise
  substitutes the character references; the substitution, which reads the table of HTML
  entities of the standard library, is the parameter \<open>cr\<close>.
\<close>

definition unescape :: "(string \<Rightarrow> string) \<Rightarrow> string \<Rightarrow> string" where
  "unescape cr s = (if CHR ''&'' \<in> set s then cr s else s)"

subsection \<open>The regular expressions\<close>

text \<open>
  A matcher takes the text from the position tried and returns the text matched there,
  if any. \<^verbatim>\<open>re.findall\<close> tries every position from the left and resumes after each
  match; an empty match moves on by one character.
\<close>

fun findall :: "(string \<Rightarrow> string option) \<Rightarrow> string \<Rightarrow> string list" where
  "findall m [] = []"
| "findall m (c # cs) =
     (case m (c # cs) of
        None \<Rightarrow> findall m cs
      | Some w \<Rightarrow> w # findall m (drop (length w - 1) cs))"

text \<open>A literal under \<^verbatim>\<open>re.I\<close>, given in lower case; the result is the text after it.\<close>

fun match_ci :: "string \<Rightarrow> string \<Rightarrow> string option" where
  "match_ci [] s = Some s"
| "match_ci (p # ps) [] = None"
| "match_ci (p # ps) (c # cs) = (if py_lower c = p then match_ci ps cs else None)"

text \<open>
  \<^verbatim>\<open>.*?LIT\<close> under \<^verbatim>\<open>re.S\<close>: the shortest run of any characters up to the first
  place where the literal matches; the result is the text after the literal.
\<close>

fun lazy_until :: "string \<Rightarrow> string \<Rightarrow> string option" where
  "lazy_until lit [] = match_ci lit []"
| "lazy_until lit (c # cs) =
     (case match_ci lit (c # cs) of
        Some r \<Rightarrow> Some r
      | None \<Rightarrow> lazy_until lit cs)"

text \<open>
  \<^verbatim>\<open>\b\<close> between a character just matched and the rest of the text; the end of the
  text counts as a non-word character.
\<close>

definition word_boundary :: "char \<Rightarrow> string \<Rightarrow> bool" where
  "word_boundary prev rest = (is_word prev \<noteq> (rest \<noteq> [] \<and> is_word (hd rest)))"

text \<open>
  \<^verbatim>\<open><TAG\b[^>]*>.*?</TAG>\<close> with the flags \<^verbatim>\<open>re.S | re.I\<close>, for the tags
  \<^verbatim>\<open>tr\<close> and \<^verbatim>\<open>td\<close>. After the tag name the class \<^verbatim>\<open>[^>]*\<close> can only stop at
  the first \<^verbatim>\<open>>\<close>, so no other split of the text can match.
\<close>

definition element_re :: "string \<Rightarrow> string \<Rightarrow> string option" where
  "element_re tag s =
     (case match_ci (CHR ''<'' # tag) s of
        None \<Rightarrow> None
      | Some r1 \<Rightarrow>
          if \<not> word_boundary (last tag) r1 then None
          else (case dropWhile (\<lambda>c. c \<noteq> CHR ''>'') r1 of
                  [] \<Rightarrow> None
                | _ # r2 \<Rightarrow>
                    (case lazy_until (''</'' @ tag @ ''>'') r2 of
                       None \<Rightarrow> None
                     | Some r3 \<Rightarrow> Some (take (length s - length r3) s))))"

text \<open>
  \<^verbatim>\<open>\d+(?:,\d{3})*(?:\.\d+)?\<close>. Every part after the first digits may match
  nothing, so the first, greedy choice of each part is the match.
\<close>

fun thousands :: "string \<Rightarrow> string" where
  "thousands (k # a # b # c # r) =
     (if k = CHR '','' \<and> is_digit a \<and> is_digit b \<and> is_digit c then thousands r
      else k # a # b # c # r)"
| "thousands r = r"

definition fraction :: "string \<Rightarrow> string" where
  "fraction r =
     (case r of
        p # d # t \<Rightarrow> if p = CHR ''.'' \<and> is_digit d then dropWhile is_digit t else r
      | _ \<Rightarrow> r)"

definition number_re :: "string \<Rightarrow> string option" where
  "number_re s =
     (if takeWhile is_digit s = [] then None
      else Some (take (length s - length (fraction (thousands (dropWhile is_digit s)))) s))"

text \<open>
  \<^verbatim>\<open>\btitle=(['\"])(.*?)\1\<close> tried at one position, \<open>prev\<close> being the character
  before it; the result is group 2.
\<close>

definition title_at :: "char \<Rightarrow> string \<Rightarrow> string option" where
  "title_at prev rest =
     (if \<not> word_boundary prev rest then None
      else (case match_ci ''title='' rest of
              None \<Rightarrow> None
            | Some [] \<Rightarrow> None
            | Some (q # r) \<Rightarrow>
                if (q = CHR 0x27 \<or> q = CHR 0x22) \<and> q \<in> set r
                then Some (takeWhile (\<lambda>c. c \<noteq> q) r) else None))"

text \<open>
  \<^verbatim>\<open>[^>]*\<close> followed by the title part: the class is greedy, so the longest run is
  tried first and shortened one character at a time until the title part matches.
\<close>

fun greedy_title :: "char \<Rightarrow> string \<Rightarrow> string option" where
  "greedy_title prev [] = title_at prev []"
| "greedy_title prev (c # cs) =
     (if c = CHR ''>'' then title_at prev (c # cs)
      else (case greedy_title c cs of
              Some g \<Rightarrow> Some g
            | None \<Rightarrow> title_at prev (c # cs)))"

text \<open>\<^verbatim>\<open><a\b[^>]*\btitle=(['\"])(.*?)\1\<close> tried at one position.\<close>

fun anchor_at :: "string \<Rightarrow> string option" where
  "anchor_at (lt # a # r) =
     (if lt = CHR ''<'' \<and> py_lower a = CHR ''a'' \<and> word_boundary a r then greedy_title a r
      else None)"
| "anchor_at s = None"

text \<open>\<^verbatim>\<open>re.search\<close> with that pattern: the leftmost position that matches.\<close>

fun search_anchor :: "string \<Rightarrow> string option" where
  "search_anchor [] = None"
| "search_anchor (c # cs) =
     (case anchor_at (c # cs) of
        Some g \<Rightarrow> Some g
      | None \<Rightarrow> search_anchor cs)"

text \<open>
  \<^verbatim>\<open>re.sub(r"<[^>]+>", " ", text, flags=re.S)\<close>: a \<^verbatim>\<open><\<close>, at least one character
  other than \<^verbatim>\<open>>\<close>, and the \<^verbatim>\<open>>\<close> that ends the run.
\<close>

fun sub_tags :: "string \<Rightarrow> string" where
  "sub_tags [] = []"
| "sub_tags (c # cs) =
     (let run = takeWhile (\<lambda>x. x \<noteq> CHR ''>'') cs in
      if c = CHR ''<'' \<and> run \<noteq> [] \<and> length run < length cs
      then CHR '' '' # sub_tags (drop (Suc (length run)) cs)
      else c # sub_tags cs)"

text \<open>\<^verbatim>\<open>re.sub(r"\s+", " ", text)\<close>.\<close>

fun collapse_ws :: "string \<Rightarrow> string" where
  "collapse_ws [] = []"
| "collapse_ws (c # cs) =
     (if is_space c
      then CHR '' '' # collapse_ws (drop (length (takeWhile is_space cs)) cs)
      else c # collapse_ws cs)"

definition strip_tags :: "(string \<Rightarrow> string) \<Rightarrow> string \<Rightarrow> string" where
  "strip_tags cr text = strip (collapse_ws (unescape cr (sub_tags text)))"

subsection \<open>Floats\<close>

text \<open>
  A Python \<^verbatim>\<open>float\<close> is an IEEE 754 binary64 value: a rational with a 53 bit
  significand, an infinity or NaN. \<open>round_double\<close> rounds a rational to the nearest
  such value, ties to even, with subnormals below \<open>2 powi (- 1022)\<close> and overflow to
  infinity from \<open>2 powi 1024\<close> on; arithmetic is the exact operation followed by that
  rounding. The sign of zero is not kept.
\<close>

datatype pyfloat = Finite rat | PosInf | NegInf | NaN

text \<open>The exponent \<open>e\<close> with \<open>2 powi e \<le> x < 2 powi (e + 1)\<close>, for positive \<open>x\<close>.\<close>

definition ilog2 :: "rat \<Rightarrow> int" where
  "ilog2 x = (if 1 \<le> x then int (floorlog 2 (nat \<lfloor>x\<rfloor>)) - 1
              else - int (ceillog2 (nat \<lceil>1 / x\<rceil>)))"

definition round_half_even :: "rat \<Rightarrow> int" where
  "round_half_even x = (let f = \<lfloor>x\<rfloor>; d = x - of_int f in
     if d < 1 / 2 then f else if 1 / 2 < d then f + 1 else if even f then f else f + 1)"

definition ulp_exp :: "rat \<Rightarrow> int" where
  "ulp_exp x = max (ilog2 x - 52) (- 1074)"

definition round_mag :: "rat \<Rightarrow> rat" where
  "round_mag x = of_int (round_half_even (x / 2 powi ulp_exp x)) * 2 powi ulp_exp x"

definition overflow_limit :: rat where
  "overflow_limit = 2 powi 1024"

definition round_double :: "rat \<Rightarrow> pyfloat" where
  "round_double x =
     (if x = 0 then Finite 0
      else let y = round_mag \<bar>x\<bar> in
        if overflow_limit \<le> y then (if 0 < x then PosInf else NegInf)
        else Finite (if 0 < x then y else - y))"

text \<open>\<^verbatim>\<open>a <= b\<close>: false whenever an operand is NaN.\<close>

fun float_le :: "pyfloat \<Rightarrow> pyfloat \<Rightarrow> bool" where
  "float_le NaN b = False"
| "float_le a NaN = False"
| "float_le NegInf b = True"
| "float_le a PosInf = True"
| "float_le (Finite a) (Finite b) = (a \<le> b)"
| "float_le a b = False"

fun float_neg :: "pyfloat \<Rightarrow> pyfloat" where
  "float_neg (Finite a) = Finite (- a)"
| "float_neg PosInf = NegInf"
| "float_neg NegInf = PosInf"
| "float_neg NaN = NaN"

text \<open>\<^verbatim>\<open>a + b\<close>: no exception is raised; opposite infinities give NaN.\<close>

fun float_add :: "pyfloat \<Rightarrow> pyfloat \<Rightarrow> pyfloat" where
  "float_add NaN b = NaN"
| "float_add a NaN = NaN"
| "float_add PosInf NegInf = NaN"
| "float_add NegInf PosInf = NaN"
| "float_add PosInf b = PosInf"
| "float_add a PosInf = PosInf"
| "float_add NegInf b = NegInf"
| "float_add a NegInf = NegInf"
| "float_add (Finite a) (Finite b) = round_double (a + b)"

text \<open>\<^verbatim>\<open>a - b\<close>.\<close>

definition float_sub :: "pyfloat \<Rightarrow> pyfloat \<Rightarrow> pyfloat" where
  "float_sub a b = float_add a (float_neg b)"

text \<open>\<^verbatim>\<open>a * b\<close>.\<close>

fun float_mul :: "pyfloat \<Rightarrow> pyfloat \<Rightarrow> pyfloat" where
  "float_mul NaN b = NaN"
| "float_mul a NaN = NaN"
| "float_mul (Finite a) (Finite b) = round_double (a * b)"
| "float_mul (Finite a) b =
     (if a = 0 then NaN else if (0 < a) = (b = PosInf) then PosInf else NegInf)"
| "float_mul a (Finite b) =
     (if b = 0 then NaN else if (0 < b) = (a = PosInf) then PosInf else NegInf)"
| "float_mul a b = (if a = b then PosInf else NegInf)"

text \<open>
  \<^verbatim>\<open>float(t)\<close> for a text \<open>t\<close> of digits, optionally followed by a point and more
  digits, which is what a token of the number pattern is once its commas are removed.
  The conversion is correctly rounded and gives infinity, not an error, on overflow.
\<close>

definition digits_value :: "string \<Rightarrow> nat" where
  "digits_value ds = foldl (\<lambda>n c. 10 * n + (of_char c - 48)) 0 ds"

definition py_float :: "string \<Rightarrow> pyfloat" where
  "py_float t =
     (let ip = takeWhile is_digit t; fp = drop (Suc (length ip)) t
      in round_double (of_nat (digits_value (ip @ fp)) / 10 ^ length fp))"

subsection \<open>Exceptions and text formatting\<close>

text \<open>
  The exceptions that reach \<^verbatim>\<open>refresh_categories\<close>; \<open>OtherError\<close> stands for any
  other subclass of \<^verbatim>\<open>Exception\<close> raised while a response is opened or read.
\<close>

datatype exn =
    RuntimeError string
  | ValueError string
  | HTTPError nat string
  | URLError string
  | TimeoutError string
  | OtherError string

fun show_nat :: "nat \<Rightarrow> string" where
  "show_nat n =
     (if n < 10 then [char_of (48 + n)]
      else show_nat (n div 10) @ [char_of (48 + n mod 10)])"

text \<open>\<^verbatim>\<open>str(exc)\<close>.\<close>

fun str_exn :: "exn \<Rightarrow> string" where
  "str_exn (RuntimeError m) = m"
| "str_exn (ValueError m) = m"
| "str_exn (HTTPError code msg) = ''HTTP Error '' @ show_nat code @ '': '' @ msg"
| "str_exn (URLError reason) = ''<urlopen error '' @ reason @ ''>''"
| "str_exn (TimeoutError m) = m"
| "str_exn (OtherError m) = m"

text \<open>
  \<^verbatim>\<open>repr(s)\<close> of a string, used by the \<^verbatim>\<open>!r\<close> conversion: single quotes unless the
  text holds a single and no double quote; the quote, the backslash and the characters
  that are not printable are escaped.
\<close>

definition hex_digit :: "nat \<Rightarrow> char" where
  "hex_digit d = (if d < 10 then char_of (48 + d) else char_of (87 + d))"

definition repr_char :: "char \<Rightarrow> char \<Rightarrow> string" where
  "repr_char q c = (let n = (of_char c :: nat) in
     if c = q \<or> c = CHR 0x5C then [CHR 0x5C, c]
     else if n = 9 then [CHR 0x5C, CHR ''t'']
     else if n = 10 then [CHR 0x5C, CHR ''n'']
     else if n = 13 then [CHR 0x5C, CHR ''r'']
     else if n < 32 \<or> n = 127 \<or> (128 \<le> n \<and> n \<le> 160) \<or> n = 173
       then [CHR 0x5C, CHR ''x'', hex_digit (n div 16), hex_digit (n mod 16)]
     else [c])"

definition py_repr :: "string \<Rightarrow> string" where
  "py_repr s =
     (let q = (if CHR 0x27 \<in> set s \<and> CHR 0x22 \<notin> set s then CHR 0x22 else CHR 0x27)
      in [q] @ concat (map (repr_char q) s) @ [q])"

subsection \<open>Table extractor\<close>

text \<open>\<^verbatim>\<open>parse_rating_cell(cell_text)\<close>.\<close>

definition parse_rating_cell :: "string \<Rightarrow> exn + (pyfloat \<times> pyfloat)" where
  "parse_rating_cell cell_text =
     (let numbers = findall number_re cell_text in
      case numbers of
        [] \<Rightarrow> Inl (ValueError (''No rating number parsed from: '' @ py_repr cell_text))
      | n0 # more \<Rightarrow>
          Inr (py_float (filter (\<lambda>c. c \<noteq> CHR '','') n0),
               (case more of
                  [] \<Rightarrow> Finite 0
                | n1 # _ \<Rightarrow> py_float (filter (\<lambda>c. c \<noteq> CHR '','') n1))))"

text \<open>The value stored for a model: a dict with these three keys.\<close>

record score =
  rating :: pyfloat
  rating_q975 :: pyfloat
  rating_q025 :: pyfloat

text \<open>
  A \<^verbatim>\<open>dict\<close> is an association list with distinct keys in insertion order;
  \<^verbatim>\<open>d[k] = v\<close> replaces the value of a key in place and appends a new key.
\<close>

fun dict_set :: "'k \<Rightarrow> 'v \<Rightarrow> ('k \<times> 'v) list \<Rightarrow> ('k \<times> 'v) list" where
  "dict_set k v [] = [(k, v)]"
| "dict_set k v (p # ps) = (if fst p = k then (k, v) # ps else p # dict_set k v ps)"

type_synonym category_document = "(string \<times> score) list"

text \<open>
  The loop of \<^verbatim>\<open>parse_leaderboard_table\<close> over the rows found, with the dict built
  so far; an exception of \<^verbatim>\<open>parse_rating_cell\<close> leaves the loop and the function.
\<close>

fun parse_rows ::
  "(string \<Rightarrow> string) \<Rightarrow> string list \<Rightarrow> category_document \<Rightarrow> exn + category_document" where
  "parse_rows cr [] parsed = Inr parsed"
| "parse_rows cr (row # rows) parsed =
     (let cells = findall (element_re ''td'') row in
      if length cells < 4 then parse_rows cr rows parsed
      else (case search_anchor row of
              None \<Rightarrow> parse_rows cr rows parsed
            | Some title \<Rightarrow>
                (let model_name = strip (unescape cr title) in
                 if model_name = [] then parse_rows cr rows parsed
                 else (case parse_rating_cell (strip_tags cr (cells ! 3)) of
                         Inl exc \<Rightarrow> Inl exc
                       | Inr (r, uncertainty) \<Rightarrow>
                           parse_rows cr rows
                             (dict_set model_name
                                \<lparr>rating = r,
                                 rating_q975 = float_add r uncertainty,
                                 rating_q025 = float_sub r uncertainty\<rparr>
                                parsed)))))"

definition parse_leaderboard_table ::
  "(string \<Rightarrow> string) \<Rightarrow> string \<Rightarrow> exn + category_document" where
  "parse_leaderboard_table cr html =
     (case parse_rows cr (findall (element_re ''tr'') html) [] of
        Inl exc \<Rightarrow> Inl exc
      | Inr parsed \<Rightarrow>
          if parsed = [] then Inl (RuntimeError ''Parsed 0 models from leaderboard table.'')
          else Inr parsed)"

subsection \<open>Category resolver\<close>

definition ARENA_BASE_URL :: string where
  "ARENA_BASE_URL = ''https://arena.ai''"

text \<open>
  \<^verbatim>\<open>build_leaderboard_path(modality, category_slug, style_control)\<close>; the flag is
  \<^verbatim>\<open>None\<close>, \<^verbatim>\<open>True\<close> or \<^verbatim>\<open>False\<close> in \<^verbatim>\<open>FILE_SPECS\<close>.
\<close>

definition build_leaderboard_path :: "string \<Rightarrow> string \<Rightarrow> bool option \<Rightarrow> string" where
  "build_leaderboard_path modality category_slug style_control =
     (if style_control = None then ''/leaderboard/'' @ modality @ ''/'' @ category_slug
      else if style_control = Some True then ''/leaderboard/'' @ modality @ ''/'' @ category_slug
      else ''/leaderboard/'' @ modality @ ''/'' @ category_slug @ ''-no-style-control'')"

subsection \<open>Resilient fetcher\<close>

text \<open>
  What one call of \<^verbatim>\<open>urlopen\<close> followed by \<^verbatim>\<open>read().decode("utf-8", errors="ignore")\<close>
  meets: an HTTP response (the final one, after the redirections that \<^verbatim>\<open>urllib\<close>
  follows) with its status code, reason phrase and decoded body; no connection; a timeout;
  or another failure.
\<close>

datatype attempt =
    Replied nat string string
  | Unreachable string
  | TimedOut string
  | Crashed string

text \<open>
  The behaviour of \<^verbatim>\<open>urllib.request.urlopen\<close>, which is not code of this repository:
  a response with a status from 200 to 299 is returned to the caller, any other status is
  raised as \<^verbatim>\<open>HTTPError\<close>.
\<close>

fun urlopen_read :: "attempt \<Rightarrow> exn + string" where
  "urlopen_read (Replied code reason body) =
     (if 200 \<le> code \<and> code < 300 then Inr body else Inl (HTTPError code reason))"
| "urlopen_read (Unreachable reason) = Inl (URLError reason)"
| "urlopen_read (TimedOut m) = Inl (TimeoutError m)"
| "urlopen_read (Crashed m) = Inl (OtherError m)"

text \<open>\<^verbatim>\<open>except (HTTPError, URLError, TimeoutError)\<close>.\<close>

fun caught :: "exn \<Rightarrow> bool" where
  "caught (HTTPError code msg) = True"
| "caught (URLError reason) = True"
| "caught (TimeoutError m) = True"
| "caught exc = False"

text \<open>
  The network is a function from the number of requests made so far, the URL and the
  timeout to what the request meets. The state records that number and the arguments of
  the calls of \<^verbatim>\<open>time.sleep\<close>, in order.
\<close>

type_synonym net = "nat \<Rightarrow> string \<Rightarrow> nat \<Rightarrow> attempt"

record world =
  calls :: nat
  slept :: "pyfloat list"

text \<open>The \<^verbatim>\<open>for attempt in range(retries)\<close> loop of \<^verbatim>\<open>http_get_text\<close> and the final raise.\<close>

function http_loop ::
  "net \<Rightarrow> string \<Rightarrow> nat \<Rightarrow> nat \<Rightarrow> nat \<Rightarrow> exn option \<Rightarrow> world \<Rightarrow> (exn + string) \<times> world" where
  "http_loop nw url timeout retries attempt last_error w =
     (if attempt < retries then
        (let w1 = w\<lparr>calls := Suc (calls w)\<rparr> in
         case urlopen_read (nw (calls w) url timeout) of
           Inr text \<Rightarrow> (Inr text, w1)
         | Inl exc \<Rightarrow>
             if caught exc then
               http_loop nw url timeout retries (Suc attempt) (Some exc)
                 (if int attempt < int retries - 1
                  then w1\<lparr>slept := slept w1 @
                         [float_mul (round_double (12 / 10)) (round_double (of_nat (attempt + 1)))]\<rparr>
                  else w1)
             else (Inl exc, w1))
      else
        (Inl (RuntimeError (''Request failed after '' @ show_nat retries @ '' retries: '' @ url
                @ '' ('' @ (case last_error of None \<Rightarrow> ''None'' | Some exc \<Rightarrow> str_exn exc)
                @ '')'')), w))"
  by pat_completeness auto
termination
  by (relation "measure (\<lambda>(nw, url, timeout, retries, attempt, last_error, w). retries - attempt)") auto

definition http_get_text ::
  "net \<Rightarrow> string \<Rightarrow> nat \<Rightarrow> nat \<Rightarrow> world \<Rightarrow> (exn + string) \<times> world" where
  "http_get_text nw url timeout retries w = http_loop nw url timeout retries 0 None w"

subsection \<open>Dataset refresher\<close>

type_synonym document = "(string \<times> category_document) list"

text \<open>
  The body of the \<^verbatim>\<open>try\<close> of \<^verbatim>\<open>refresh_categories\<close> up to the value assigned:
  fetch with the default timeout of 75 and the default 3 attempts, table check, extraction.
\<close>

definition fetch_and_parse ::
  "(string \<Rightarrow> string) \<Rightarrow> net \<Rightarrow> string \<Rightarrow> world \<Rightarrow> (exn + category_document) \<times> world" where
  "fetch_and_parse cr nw url w =
     (case http_get_text nw url 75 3 w of
        (Inl exc, w') \<Rightarrow> (Inl exc, w')
      | (Inr html, w') \<Rightarrow>
          if \<not> contains ''<table'' (map py_lower html)
          then (Inl (RuntimeError ''No table in response''), w')
          else (parse_leaderboard_table cr html, w'))"

text \<open>
  The loop over \<^verbatim>\<open>category_map.items()\<close>, with the state \<^verbatim>\<open>target_data\<close>,
  \<^verbatim>\<open>updated\<close>, \<^verbatim>\<open>skipped\<close> and the world.
\<close>

fun refresh_loop ::
  "(string \<Rightarrow> string) \<Rightarrow> net \<Rightarrow> string \<Rightarrow> bool option \<Rightarrow> (string \<times> string) list
   \<Rightarrow> document \<times> string list \<times> (string \<times> string) list \<times> world
   \<Rightarrow> document \<times> string list \<times> (string \<times> string) list \<times> world" where
  "refresh_loop cr nw modality style_control [] st = st"
| "refresh_loop cr nw modality style_control ((output_key, category_slug) # items)
     (target_data, updated, skipped, w) =
     (let path = build_leaderboard_path modality category_slug style_control;
          url = ARENA_BASE_URL @ path
      in case fetch_and_parse cr nw url w of
           (Inr parsed, w') \<Rightarrow>
             refresh_loop cr nw modality style_control items
               (dict_set output_key parsed target_data, updated @ [output_key], skipped, w')
         | (Inl exc, w') \<Rightarrow>
             refresh_loop cr nw modality style_control items
               (target_data, updated, skipped @ [(output_key, str_exn exc)], w'))"

definition refresh_categories ::
  "(string \<Rightarrow> string) \<Rightarrow> net \<Rightarrow> document \<Rightarrow> string \<Rightarrow> (string \<times> string) list \<Rightarrow> bool option
   \<Rightarrow> world \<Rightarrow> document \<times> string list \<times> (string \<times> string) list \<times> world" where
  "refresh_categories cr nw target_data modality category_map style_control w =
     refresh_loop cr nw modality style_control category_map (target_data, [], [], w)"

section \<open>Properties\<close>

text \<open>
  C8. For every modality and category slug the path is
  \<^verbatim>\<open>/leaderboard/{modality}/{slug}\<close> when the flag is absent and when it is on, so both
  give the same path, and that path followed by \<^verbatim>\<open>-no-style-control\<close> when the flag is
  off. The function is total and has no other input.
\<close>

theorem build_leaderboard_path_cases:
  "build_leaderboard_path modality slug None = ''/leaderboard/'' @ modality @ ''/'' @ slug
   \<and> build_leaderboard_path modality slug (Some True) = ''/leaderboard/'' @ modality @ ''/'' @ slug
   \<and> build_leaderboard_path modality slug (Some True) = build_leaderboard_path modality slug None
   \<and> build_leaderboard_path modality slug (Some False)
       = build_leaderboard_path modality slug None @ ''-no-style-control''"
  by (simp add: build_leaderboard_path_def)

end
